theory Spec2Isabelle
  imports Main "HOL-Library.AList" "HOL-Library.Multiset"
begin

section \<open>Strings\<close>

text \<open>
  TypeScript strings are modelled as \<^typ>\<open>string\<close>. The only string operation of the
  program besides concatenation is \<^verbatim>\<open>toLowerCase()\<close>, applied to the selected
  category. The model maps the letters \<^verbatim>\<open>A\<close> to \<^verbatim>\<open>Z\<close> to \<^verbatim>\<open>a\<close> to \<^verbatim>\<open>z\<close> and
  leaves every other character alone, which is what JavaScript does on ASCII text; the
  categories the component can select are the keys of its catalog, all of them ASCII.
\<close>

definition upperLetters :: string where
  "upperLetters = ''ABCDEFGHIJKLMNOPQRSTUVWXYZ''"

definition lowerLetters :: string where
  "lowerLetters = ''abcdefghijklmnopqrstuvwxyz''"

definition toLowerCase :: "string \<Rightarrow> string" where
  "toLowerCase s =
     map (\<lambda>c. case map_of (zip upperLetters lowerLetters) c of None \<Rightarrow> c | Some d \<Rightarrow> d) s"

section \<open>The resource catalog\<close>

text \<open>
  \<^verbatim>\<open>interface Resource { id; name; fields }\<close> of the older component file. The current
  file \<^verbatim>\<open>Terraform.tsx\<close> adds the property \<^verbatim>\<open>image\<close>; it is modelled as the extension
  slot of the record, so that one definition of the object spread
  \<^verbatim>\<open>{ ...resource, values: {} }\<close> serves both files.
\<close>

record resource =
  res_id :: string
  res_name :: string
  res_fields :: "string list"

record image =
  res_image :: string

type_synonym resource_img = "image resource_scheme"

definition mkResource :: "string \<Rightarrow> string \<Rightarrow> string list \<Rightarrow> string \<Rightarrow> resource_img" where
  "mkResource i n fs img =
     \<lparr>res_id = i, res_name = n, res_fields = fs, \<dots> = \<lparr>res_image = img\<rparr>\<rparr>"

text \<open>The constant \<^verbatim>\<open>resources\<close> of \<^verbatim>\<open>Terraform.tsx\<close>, lines 15 to 29.\<close>

definition resources :: "(string \<times> resource_img list) list" where
  "resources =
    [(''AWS'',
       [mkResource ''aws_ec2'' ''AWS EC2'' [''ami'', ''instance_type'', ''tags''] ''/aws-ec2.png'',
        mkResource ''aws_s3'' ''AWS S3'' [''bucket_name'', ''region''] ''/aws-s3.png'',
        mkResource ''aws_rds'' ''AWS RDS'' [''db_name'', ''instance_class''] ''/aws-rds.png'']),
     (''OpenStack'',
       [mkResource ''openstack_compute'' ''OpenStack Compute'' [''flavor'', ''image'']
          ''/openstack-compute.png'',
        mkResource ''openstack_network'' ''OpenStack Network'' [''cidr'', ''subnet'']
          ''/openstack-network.png'']),
     (''Docker'',
       [mkResource ''docker_container'' ''Docker Container'' [''image'', ''ports'']
          ''/docker-container.png'',
        mkResource ''docker_network'' ''Docker Network'' [''driver''] ''/docker-network.png''])]"

text \<open>The constant \<^verbatim>\<open>resources\<close> of the older file, lines 14 to 28: no images.\<close>

definition resources_old :: "(string \<times> resource list) list" where
  "resources_old =
    [(''AWS'',
       [\<lparr>res_id = ''aws_ec2'', res_name = ''AWS EC2'',
          res_fields = [''ami'', ''instance_type'', ''tags'']\<rparr>,
        \<lparr>res_id = ''aws_s3'', res_name = ''AWS S3'', res_fields = [''bucket_name'', ''region'']\<rparr>,
        \<lparr>res_id = ''aws_rds'', res_name = ''AWS RDS'',
          res_fields = [''db_name'', ''instance_class'']\<rparr>]),
     (''OpenStack'',
       [\<lparr>res_id = ''openstack_compute'', res_name = ''OpenStack Compute'',
          res_fields = [''flavor'', ''image'']\<rparr>,
        \<lparr>res_id = ''openstack_network'', res_name = ''OpenStack Network'',
          res_fields = [''cidr'', ''subnet'']\<rparr>]),
     (''Docker'',
       [\<lparr>res_id = ''docker_container'', res_name = ''Docker Container'',
          res_fields = [''image'', ''ports'']\<rparr>,
        \<lparr>res_id = ''docker_network'', res_name = ''Docker Network'',
          res_fields = [''driver'']\<rparr>])]"

section \<open>Placed resources and their value objects\<close>

text \<open>
  A placed resource is the object \<^verbatim>\<open>{ ...resource, values: {} }\<close>. Its \<^verbatim>\<open>values\<close> is
  a plain JavaScript object with string values, modelled as the list of its own
  properties in creation order.
\<close>

record placed = resource +
  res_values :: "(string \<times> string) list"

definition place :: "'a resource_scheme \<Rightarrow> 'a placed_scheme" where
  "place r =
     \<lparr>res_id = res_id r, res_name = res_name r, res_fields = res_fields r, res_values = [],
      \<dots> = resource.more r\<rparr>"

text \<open>
  The assignment \<^verbatim>\<open>values[key] = value\<close>. An existing property keeps its place and
  takes the new value, a new one is created after all others. The key
  \<^verbatim>\<open>__proto__\<close> is the accessor inherited from \<^verbatim>\<open>Object.prototype\<close>, whose setter
  ignores a string: no own property is created.
\<close>

definition setProperty ::
  "(string \<times> string) list \<Rightarrow> string \<Rightarrow> string \<Rightarrow> (string \<times> string) list" where
  "setProperty vs key v = (if key = ''__proto__'' then vs else AList.update key v vs)"

text \<open>
  \<^verbatim>\<open>Object.entries\<close> lists the own properties whose key is an array index (the
  canonical decimal form of a number below \<open>2\<^sup>3\<^sup>2 - 1\<close>) first, by ascending number,
  and then the other string keys in creation order.
\<close>

definition digitValue :: "char \<Rightarrow> nat option" where
  "digitValue c = map_of (zip ''0123456789'' [0, 1, 2, 3, 4, 5, 6, 7, 8, 9]) c"

definition arrayIndex :: "string \<Rightarrow> nat option" where
  "arrayIndex k =
     (case those (map digitValue k) of
        None \<Rightarrow> None
      | Some ds \<Rightarrow>
          (case ds of
             [] \<Rightarrow> None
           | d # ds' \<Rightarrow>
               if d = 0 \<and> ds' \<noteq> [] then None
               else (let n = foldl (\<lambda>n d. 10 * n + d) 0 ds
                     in if n < 2 ^ 32 - 1 then Some n else None)))"

definition isArrayIndex :: "string \<times> string \<Rightarrow> bool" where
  "isArrayIndex kv = (arrayIndex (fst kv) \<noteq> None)"

definition Object_entries :: "(string \<times> string) list \<Rightarrow> (string \<times> string) list" where
  "Object_entries vs =
     sort_key (\<lambda>kv. the (arrayIndex (fst kv))) (filter isArrayIndex vs)
     @ filter (\<lambda>kv. \<not> isArrayIndex kv) vs"

section \<open>The renderer\<close>

text \<open>
  The initial value of \<^verbatim>\<open>code\<close> in \<^verbatim>\<open>generateTerraformCode\<close> (\<^verbatim>\<open>Terraform.tsx\<close>, lines
  71 to 79) and in \<^verbatim>\<open>updateTerraformCode\<close> (older file, lines 66 to 74), as functions of
  \<^verbatim>\<open>selectedCategory.toLowerCase()\<close>.
\<close>

definition template :: "string \<Rightarrow> string" where
  \<open>template lc =
     ''terraform {\<newline>  required_providers {\<newline>    '' @ lc @ '' = {\<newline>      source  = "hashicorp/''
     @ lc @ ''"\<newline>      version = "~> 4.16"\<newline>    }\<newline>  }\<newline>  required_version = ">= 1.2.0"\<newline>}\<newline>\<newline>provider "''
     @ lc @ ''" {}\<newline>\<newline>''\<close>

definition template_old :: "string \<Rightarrow> string" where
  \<open>template_old lc =
     ''terraform {\<newline>  required_providers {\<newline>    '' @ lc @ '' = {\<newline>      source  = "hashicorp/''
     @ lc @ ''"\<newline>      version = "~> 4.16"\<newline>    }\<newline>  }\<newline>  required_version = ">= 1.2.0"\<newline>}\<newline>\<newline>''\<close>

text \<open>The body of the inner \<^verbatim>\<open>forEach\<close>: one line per entry of \<^verbatim>\<open>res.values\<close>.\<close>

definition appendEntry :: "string \<Rightarrow> string \<times> string \<Rightarrow> string" where
  \<open>appendEntry code kv = code @ ''  '' @ fst kv @ '' = "'' @ snd kv @ ''"\<newline>''\<close>

text \<open>The body of the outer \<^verbatim>\<open>forEach\<close>: header line, entry lines, closing line.\<close>

definition appendResource :: "string \<Rightarrow> 'a placed_scheme \<Rightarrow> string" where
  \<open>appendResource code res =
     foldl appendEntry
       (code @ ''resource "'' @ res_id res @ ''" "'' @ res_id res @ ''_resource" {\<newline>'')
       (Object_entries (res_values res))
     @ ''}\<newline>\<newline>''\<close>

text \<open>
  The text that \<^verbatim>\<open>generateTerraformCode\<close> hands to \<^verbatim>\<open>setTerraformCode\<close>, as a function
  of the two state variables it reads; and the same for \<^verbatim>\<open>updateTerraformCode\<close>, which
  reads the category and takes the resources as its argument.
\<close>

definition generateTerraformCode :: "string \<Rightarrow> 'a placed_scheme list \<Rightarrow> string" where
  "generateTerraformCode category rs =
     foldl appendResource (template (toLowerCase category)) rs"

definition updateTerraformCode :: "string \<Rightarrow> 'a placed_scheme list \<Rightarrow> string" where
  "updateTerraformCode category rs =
     foldl appendResource (template_old (toLowerCase category)) rs"

section \<open>The session state of the component\<close>

text \<open>
  The component holds \<^verbatim>\<open>selectedCategory\<close>, \<^verbatim>\<open>droppedResources\<close> and \<^verbatim>\<open>terraformCode\<close>
  in React state (the theme flag is left out: the document does not depend on it). The array
  \<^verbatim>\<open>droppedResources\<close> holds references to objects that \<^verbatim>\<open>updateResourceValue\<close>
  mutates in place through a shallow copy of the array, so the objects live in an
  explicit store and the array is a list of addresses; \<open>fresh\<close> is the next unused
  address.
\<close>

type_synonym ref = nat

datatype error = TypeError

record 'p session =
  selectedCategory :: string
  droppedResources :: "ref list"
  store :: "ref \<Rightarrow> 'p option"
  fresh :: ref
  terraformCode :: string

definition deref :: "('p, 'z) session_scheme \<Rightarrow> 'p list" where
  "deref s = map (\<lambda>r. the (store s r)) (droppedResources s)"

text \<open>
  \<^verbatim>\<open>setDroppedResources([...droppedResources, { ...resource, values: {} }])\<close>: a new
  object, referenced from the end of a new array.
\<close>

definition addPlaced ::
  "'a resource_scheme \<Rightarrow> ('a placed_scheme, 'z) session_scheme
     \<Rightarrow> ('a placed_scheme, 'z) session_scheme" where
  "addPlaced resource s =
     s\<lparr>store := (store s)(fresh s \<mapsto> place resource),
       fresh := Suc (fresh s),
       droppedResources := droppedResources s @ [fresh s]\<rparr>"

text \<open>
  \<^verbatim>\<open>const updatedResources = [...droppedResources];
  updatedResources[index].values[key] = value;
  setDroppedResources(updatedResources);\<close>
  The copy holds the same references, so the assignment changes the object in the
  store. Past the end of the array \<^verbatim>\<open>updatedResources[index]\<close> is \<^verbatim>\<open>undefined\<close> and
  reading its \<^verbatim>\<open>values\<close> throws, before any setter is called.
\<close>

definition assignValue ::
  "nat \<Rightarrow> string \<Rightarrow> string \<Rightarrow> ('a placed_scheme, 'z) session_scheme
     \<Rightarrow> error + ('a placed_scheme, 'z) session_scheme" where
  "assignValue index key v s =
     (if index < length (droppedResources s) then
        (case store s (droppedResources s ! index) of
           None \<Rightarrow> Inl TypeError
         | Some obj \<Rightarrow>
             Inr (s\<lparr>store := (store s)(droppedResources s ! index \<mapsto>
                        obj\<lparr>res_values := setProperty (res_values obj) key v\<rparr>)\<rparr>))
      else Inl TypeError)"

text \<open>The events the rendered elements can deliver to the component.\<close>

datatype event =
  DragEnd string
  | InputChange nat string string
  | CategoryChange string
  | EditorChange "string option"

subsection \<open>The older component file\<close>

text \<open>
  The older file declares no effect for the resources or the code: its handlers call
  \<^verbatim>\<open>updateTerraformCode\<close> themselves, with the array they have just built.
  \<^verbatim>\<open>handleDragEnd\<close> evaluates the array literal a second time for that call; the
  second new object has the same content as the first and is not kept.
  \<^verbatim>\<open>resources[selectedCategory]\<close> has no \<^verbatim>\<open>find\<close> method when the category is not a
  key of the catalog, and the call throws.
\<close>

type_synonym session_old = "placed session"

definition handleDragEnd_old :: "string \<Rightarrow> session_old \<Rightarrow> error + session_old" where
  "handleDragEnd_old activeId s =
     (case map_of resources_old (selectedCategory s) of
        None \<Rightarrow> Inl TypeError
      | Some defs \<Rightarrow>
          (case find (\<lambda>r. res_id r = activeId) defs of
             None \<Rightarrow> Inr s
           | Some resource \<Rightarrow>
               Inr ((addPlaced resource s)
                     \<lparr>terraformCode :=
                        updateTerraformCode (selectedCategory s) (deref s @ [place resource])\<rparr>)))"

definition updateResourceValue_old ::
  "nat \<Rightarrow> string \<Rightarrow> string \<Rightarrow> session_old \<Rightarrow> error + session_old" where
  "updateResourceValue_old index key v s =
     (case assignValue index key v s of
        Inl e \<Rightarrow> Inl e
      | Inr s' \<Rightarrow>
          Inr (s'\<lparr>terraformCode := updateTerraformCode (selectedCategory s') (deref s')\<rparr>))"

definition dispatch_old :: "event \<Rightarrow> session_old \<Rightarrow> error + session_old" where
  "dispatch_old e s =
     (case e of
        DragEnd activeId \<Rightarrow> handleDragEnd_old activeId s
      | InputChange index key v \<Rightarrow> updateResourceValue_old index key v s
      | CategoryChange c \<Rightarrow> Inr (s\<lparr>selectedCategory := c\<rparr>)
      | EditorChange code \<Rightarrow>
          Inr (s\<lparr>terraformCode := (case code of None \<Rightarrow> [] | Some c \<Rightarrow> c)\<rparr>))"

text \<open>A handler that throws has called no setter: the state stays as it was.\<close>

definition step_old :: "event \<Rightarrow> session_old \<Rightarrow> session_old" where
  "step_old e s = (case dispatch_old e s of Inl err \<Rightarrow> s | Inr s' \<Rightarrow> s')"

definition initial_old :: session_old where
  "initial_old =
     \<lparr>selectedCategory = ''AWS'', droppedResources = [], store = Map.empty, fresh = 0,
      terraformCode = []\<rparr>"

subsection \<open>The current component file\<close>

text \<open>
  In \<^verbatim>\<open>Terraform.tsx\<close> the handlers only set state; two effects do the rest:
  \<^verbatim>\<open>useEffect(() => { setDroppedResources([]); }, [selectedCategory])\<close> and
  \<^verbatim>\<open>useEffect(() => { generateTerraformCode(); }, [droppedResources, selectedCategory])\<close>.
  After a render React runs, in this order, each effect whose dependencies are not
  identical to those of its last run; the effects read the state of that render, and
  the setter calls they make take effect together in the next render. Arrays are
  compared by identity: \<open>arrayIdent\<close> numbers the arrays that
  \<^verbatim>\<open>setDroppedResources\<close> has been given, and \<open>clearedFor\<close> and \<open>generatedFor\<close> hold the
  dependencies of the last run of each effect (\<open>None\<close> before the first).
\<close>

type_synonym placed_img = "image placed_scheme"

record session_fx = "placed_img session" +
  arrayIdent :: nat
  clearedFor :: "string option"
  generatedFor :: "(nat \<times> string) option"

definition clearPending :: "session_fx \<Rightarrow> bool" where
  "clearPending s = (clearedFor s \<noteq> Some (selectedCategory s))"

definition generatePending :: "session_fx \<Rightarrow> bool" where
  "generatePending s = (generatedFor s \<noteq> Some (arrayIdent s, selectedCategory s))"

definition flushEffects :: "session_fx \<Rightarrow> session_fx" where
  "flushEffects s =
     (let s1 = (if clearPending s
                then s\<lparr>droppedResources := [], arrayIdent := Suc (arrayIdent s)\<rparr> else s);
          s2 = (if generatePending s
                then s1\<lparr>terraformCode := generateTerraformCode (selectedCategory s) (deref s)\<rparr>
                else s1)
      in s2\<lparr>clearedFor := Some (selectedCategory s),
            generatedFor := Some (arrayIdent s, selectedCategory s)\<rparr>)"

text \<open>Rendering and running effects goes on until no effect has new dependencies.\<close>

function settle :: "session_fx \<Rightarrow> session_fx" where
  "settle s = (if clearPending s \<or> generatePending s then settle (flushEffects s) else s)"
  by pat_completeness auto
termination
  by (relation "measure (\<lambda>s. if clearPending s then 2 else if generatePending s then 1 else 0)")
     (auto simp: clearPending_def generatePending_def flushEffects_def Let_def)

declare settle.simps [simp del]

definition handleDragEnd :: "string \<Rightarrow> session_fx \<Rightarrow> error + session_fx" where
  "handleDragEnd activeId s =
     (case map_of resources (selectedCategory s) of
        None \<Rightarrow> Inl TypeError
      | Some defs \<Rightarrow>
          (case find (\<lambda>r. res_id r = activeId) defs of
             None \<Rightarrow> Inr s
           | Some resource \<Rightarrow>
               Inr ((addPlaced resource s)\<lparr>arrayIdent := Suc (arrayIdent s)\<rparr>)))"

definition updateResourceValue ::
  "nat \<Rightarrow> string \<Rightarrow> string \<Rightarrow> session_fx \<Rightarrow> error + session_fx" where
  "updateResourceValue index key v s =
     (case assignValue index key v s of
        Inl e \<Rightarrow> Inl e
      | Inr s' \<Rightarrow> Inr (s'\<lparr>arrayIdent := Suc (arrayIdent s')\<rparr>))"

definition dispatch :: "event \<Rightarrow> session_fx \<Rightarrow> error + session_fx" where
  "dispatch e s =
     (case e of
        DragEnd activeId \<Rightarrow> handleDragEnd activeId s
      | InputChange index key v \<Rightarrow> updateResourceValue index key v s
      | CategoryChange c \<Rightarrow> Inr (s\<lparr>selectedCategory := c\<rparr>)
      | EditorChange code \<Rightarrow>
          Inr (s\<lparr>terraformCode := (case code of None \<Rightarrow> [] | Some c \<Rightarrow> c)\<rparr>))"

definition step :: "event \<Rightarrow> session_fx \<Rightarrow> session_fx" where
  "step e s = (case dispatch e s of Inl err \<Rightarrow> s | Inr s' \<Rightarrow> settle s')"

definition initial :: session_fx where
  "initial =
     \<lparr>selectedCategory = ''AWS'', droppedResources = [], store = Map.empty, fresh = 0,
      terraformCode = [], arrayIdent = 0, clearedFor = None, generatedFor = None\<rparr>"

definition mount :: session_fx where
  "mount = settle initial"

section \<open>The document grammar of the specification\<close>

text \<open>
  The pieces the specification names: the preamble with the required-provider entry,
  the provider-instantiation block, and a resource block made of its header line, one
  line per field and value, and the closing brace with a blank line.
\<close>

definition preamble :: "string \<Rightarrow> string" where
  \<open>preamble lc =
     ''terraform {\<newline>  required_providers {\<newline>    '' @ lc @ '' = {\<newline>''
     @ ''      source  = "'' @ ''hashicorp/'' @ lc @ ''"\<newline>''
     @ ''      version = "~> 4.16"\<newline>''
     @ ''    }\<newline>  }\<newline>''
     @ ''  required_version = ">= 1.2.0"\<newline>''
     @ ''}\<newline>\<newline>''\<close>

definition providerBlock :: "string \<Rightarrow> string" where
  \<open>providerBlock lc = ''provider "'' @ lc @ ''" {}\<newline>\<newline>''\<close>

definition blockHeader :: "string \<Rightarrow> string" where
  \<open>blockHeader ident = ''resource "'' @ ident @ ''" "'' @ ident @ ''_resource" {\<newline>''\<close>

definition fieldLine :: "string \<times> string \<Rightarrow> string" where
  \<open>fieldLine kv = ''  '' @ fst kv @ '' = "'' @ snd kv @ ''"\<newline>''\<close>

definition blockEnd :: string where
  \<open>blockEnd = ''}\<newline>\<newline>''\<close>

definition blockOf :: "string \<Rightarrow> (string \<times> string) list \<Rightarrow> string" where
  "blockOf ident entries = blockHeader ident @ concat (map fieldLine entries) @ blockEnd"

definition resourceBlock :: "'a placed_scheme \<Rightarrow> string" where
  "resourceBlock res = blockOf (res_id res) (Object_entries (res_values res))"

text \<open>
  The other field order the specification describes for one of the two renderers:
  the declared fields of the resource in catalog order, each with its value when it
  has one.
\<close>

definition catalogOrderEntries :: "'a placed_scheme \<Rightarrow> (string \<times> string) list" where
  "catalogOrderEntries res =
     concat (map (\<lambda>f. case map_of (res_values res) f of None \<Rightarrow> [] | Some v \<Rightarrow> [(f, v)])
               (res_fields res))"

definition catalogOrderBlock :: "'a placed_scheme \<Rightarrow> string" where
  "catalogOrderBlock res = blockOf (res_id res) (catalogOrderEntries res)"

section \<open>States, invariants and notions used by the properties\<close>

text \<open>
  A session is well formed when the array holds distinct references to allocated
  objects. \<open>run\<close> and \<open>run_old\<close> give the state of the two components after a
  sequence of events, starting from the mounted component.
\<close>

definition wf :: "('p, 'z) session_scheme \<Rightarrow> bool" where
  "wf s = (distinct (droppedResources s)
           \<and> (\<forall>r \<in> set (droppedResources s). r < fresh s \<and> store s r \<noteq> None))"

definition run :: "event list \<Rightarrow> session_fx" where
  "run es = foldl (\<lambda>s e. step e s) mount es"

definition run_old :: "event list \<Rightarrow> session_old" where
  "run_old es = foldl (\<lambda>s e. step_old e s) initial_old es"

text \<open>
  What an assignment to the entry \<open>key\<close> of the resource at position \<open>i\<close> may change
  in a sequence of placed resources: nothing but that entry.
\<close>

definition onlyEntryChanged ::
  "nat \<Rightarrow> string \<Rightarrow> 'a placed_scheme list \<Rightarrow> 'a placed_scheme list \<Rightarrow> bool" where
  "onlyEntryChanged i key old new =
     (length new = length old
      \<and> (\<forall>j < length old. j \<noteq> i \<longrightarrow> new ! j = old ! j)
      \<and> (i < length old \<longrightarrow>
           res_id (new ! i) = res_id (old ! i)
           \<and> res_name (new ! i) = res_name (old ! i)
           \<and> res_fields (new ! i) = res_fields (old ! i)
           \<and> placed.more (new ! i) = placed.more (old ! i)
           \<and> filter (\<lambda>kv. fst kv \<noteq> key) (res_values (new ! i))
               = filter (\<lambda>kv. fst kv \<noteq> key) (res_values (old ! i))))"

text \<open>
  The value object that a sequence of input edits builds from \<^verbatim>\<open>{}\<close>, the order in
  which field names occur first in such a sequence, the value written last for a
  field, and the field names and identifiers the catalog declares. The component
  renders one input per entry of \<^verbatim>\<open>res.fields\<close>, so every key it ever assigns is a
  field name of the catalog.
\<close>

definition applyEdits :: "(string \<times> string) list \<Rightarrow> (string \<times> string) list" where
  "applyEdits edits = foldl (\<lambda>vs kv. setProperty vs (fst kv) (snd kv)) [] edits"

definition firstEdited :: "string list \<Rightarrow> string list" where
  "firstEdited ks = foldl (\<lambda>seen k. if k \<in> set seen then seen else seen @ [k]) [] ks"

definition latestValue :: "(string \<times> string) list \<Rightarrow> string \<Rightarrow> string" where
  "latestValue edits k = (case map_of (rev edits) k of None \<Rightarrow> [] | Some v \<Rightarrow> v)"

definition catalogFields :: "string list" where
  "catalogFields = concat (map res_fields (concat (map snd resources)))"

definition catalogIds :: "string \<Rightarrow> string list" where
  "catalogIds category =
     (case map_of resources category of None \<Rightarrow> [] | Some defs \<Rightarrow> map res_id defs)"

definition catalogIds_old :: "string \<Rightarrow> string list" where
  "catalogIds_old category =
     (case map_of resources_old category of None \<Rightarrow> [] | Some defs \<Rightarrow> map res_id defs)"

definition aws_s3 :: resource_img where
  "aws_s3 = mkResource ''aws_s3'' ''AWS S3'' [''bucket_name'', ''region''] ''/aws-s3.png''"

definition s3_region_first :: placed_img where
  "s3_region_first =
     (place aws_s3)\<lparr>res_values := [(''region'', ''us-east-1''), (''bucket_name'', ''my-bucket'')]\<rparr>"

definition region_first :: "event list" where
  "region_first =
     [DragEnd ''aws_s3'', InputChange 0 ''region'' ''us-east-1'',
      InputChange 0 ''bucket_name'' ''my-bucket'']"

definition two_drops :: "event list" where
  "two_drops = [DragEnd ''aws_ec2'', DragEnd ''aws_s3'']"

section \<open>The renderer in closed form\<close>

lemma template_split: "template lc = preamble lc @ providerBlock lc"
  by (simp add: template_def preamble_def providerBlock_def)

lemma template_old_preamble: "template_old lc = preamble lc"
  by (simp add: template_old_def preamble_def)

lemma foldl_appendEntry: "foldl appendEntry code es = code @ concat (map fieldLine es)"
  by (induction es arbitrary: code) (simp_all add: appendEntry_def fieldLine_def)

lemma appendResource_block: "appendResource code res = code @ resourceBlock res"
  by (simp add: appendResource_def foldl_appendEntry resourceBlock_def blockOf_def
      blockHeader_def blockEnd_def)

lemma foldl_appendResource:
  "foldl appendResource code rs = code @ concat (map resourceBlock rs)"
  by (induction rs arbitrary: code) (simp_all add: appendResource_block)

lemma generateTerraformCode_blocks:
  "generateTerraformCode c rs =
     preamble (toLowerCase c) @ providerBlock (toLowerCase c) @ concat (map resourceBlock rs)"
  by (simp add: generateTerraformCode_def foldl_appendResource template_split)

lemma updateTerraformCode_blocks:
  "updateTerraformCode c rs = preamble (toLowerCase c) @ concat (map resourceBlock rs)"
  by (simp add: updateTerraformCode_def foldl_appendResource template_old_preamble)

lemma toLowerCase_AWS: "toLowerCase ''AWS'' = ''aws''"
  by (simp add: toLowerCase_def upperLetters_def lowerLetters_def)

lemma Object_entries_plain:
  "\<forall>kv \<in> set vs. arrayIndex (fst kv) = None \<Longrightarrow> Object_entries vs = vs"
  by (simp add: Object_entries_def isArrayIndex_def)

lemma mset_Object_entries: "mset (Object_entries vs) = mset vs"
  by (simp add: Object_entries_def)

text \<open>Keys that are array indices come first, whatever the creation order.\<close>

lemma Object_entries_index_keys_first:
  "Object_entries [(''b'', ''x''), (''10'', ''y''), (''2'', ''z''), (''01'', ''q'')]
     = [(''2'', ''z''), (''10'', ''y''), (''b'', ''x''), (''01'', ''q'')]"
  by (simp add: Object_entries_def isArrayIndex_def arrayIndex_def digitValue_def)

section \<open>Assignments to a value object\<close>

lemma filter_update_other:
  "filter (\<lambda>kv. fst kv \<noteq> k) (AList.update k v vs) = filter (\<lambda>kv. fst kv \<noteq> k) vs"
  by (induction vs) auto

lemma setProperty_others:
  "filter (\<lambda>kv. fst kv \<noteq> k) (setProperty vs k v) = filter (\<lambda>kv. fst kv \<noteq> k) vs"
  by (simp add: setProperty_def filter_update_other)

lemma setProperty_keys:
  "map fst (setProperty vs k v) =
     (if k = ''__proto__'' \<or> k \<in> set (map fst vs) then map fst vs else map fst vs @ [k])"
  by (simp add: setProperty_def update_keys)

lemma setProperty_lookup:
  "map_of (setProperty vs k v) =
     (if k = ''__proto__'' then map_of vs else (map_of vs)(k \<mapsto> v))"
  by (simp add: setProperty_def update_conv')

lemma catalogFields_old: "concat (map res_fields (concat (map snd resources_old))) = catalogFields"
  by (simp add: catalogFields_def resources_def resources_old_def mkResource_def)

lemma catalogFields_plain:
  "f \<in> set catalogFields \<Longrightarrow> arrayIndex f = None \<and> f \<noteq> ''__proto__''"
  by (auto simp: catalogFields_def resources_def mkResource_def arrayIndex_def digitValue_def)

lemma foldl_setProperty_keys:
  "''__proto__'' \<notin> fst ` set edits \<Longrightarrow>
   map fst (foldl (\<lambda>vs kv. setProperty vs (fst kv) (snd kv)) vs0 edits) =
     foldl (\<lambda>seen k. if k \<in> set seen then seen else seen @ [k]) (map fst vs0) (map fst edits)"
proof (induction edits arbitrary: vs0)
  case Nil
  show ?case by simp
next
  case (Cons e edits)
  then show ?case by (auto simp: setProperty_keys)
qed

lemma foldl_setProperty_distinct:
  "distinct (map fst vs0) \<Longrightarrow>
   distinct (map fst (foldl (\<lambda>vs kv. setProperty vs (fst kv) (snd kv)) vs0 edits))"
  by (induction edits arbitrary: vs0) (simp_all add: setProperty_def distinct_update)

lemma foldl_setProperty_lookup:
  "''__proto__'' \<notin> fst ` set edits \<Longrightarrow>
   map_of (foldl (\<lambda>vs kv. setProperty vs (fst kv) (snd kv)) vs0 edits) =
     map_of vs0 ++ map_of (rev edits)"
proof (induction edits arbitrary: vs0)
  case Nil
  show ?case by simp
next
  case (Cons e edits)
  have "map_of (setProperty vs0 (fst e) (snd e)) = map_of vs0 ++ map_of [e]"
    using Cons.prems by (cases e) (auto simp: setProperty_lookup)
  moreover have "(map_of vs0 ++ map_of [e]) ++ map_of (rev edits)
      = map_of vs0 ++ map_of (rev (e # edits))"
    by simp
  ultimately show ?case using Cons by simp
qed

lemma alist_by_keys:
  "distinct (map fst vs) \<Longrightarrow>
   vs = map (\<lambda>k. (k, case map_of vs k of None \<Rightarrow> [] | Some v \<Rightarrow> v)) (map fst vs)"
proof (induction vs)
  case Nil
  show ?case by simp
next
  case (Cons p vs)
  obtain a b where p: "p = (a, b)" by (cases p)
  from Cons.prems p have "\<forall>x \<in> set vs. fst x \<noteq> a" by auto
  then have "map (\<lambda>x. (fst x, case map_of (p # vs) (fst x) of None \<Rightarrow> [] | Some v \<Rightarrow> v)) vs
           = map (\<lambda>x. (fst x, case map_of vs (fst x) of None \<Rightarrow> [] | Some v \<Rightarrow> v)) vs"
    by (simp add: p)
  moreover have "vs = map (\<lambda>x. (fst x, case map_of vs (fst x) of None \<Rightarrow> [] | Some v \<Rightarrow> v)) vs"
    using Cons by (simp add: comp_def)
  ultimately show ?case by (simp add: p comp_def)
qed

lemma applyEdits_first_edit_order:
  assumes "''__proto__'' \<notin> fst ` set edits"
  shows "applyEdits edits = map (\<lambda>k. (k, latestValue edits k)) (firstEdited (map fst edits))"
proof -
  let ?vs = "applyEdits edits"
  have k: "map fst ?vs = firstEdited (map fst edits)"
    using foldl_setProperty_keys [OF assms, of "[]"] by (simp add: applyEdits_def firstEdited_def)
  have d: "distinct (map fst ?vs)"
    using foldl_setProperty_distinct [of "[]" edits] by (simp add: applyEdits_def)
  have l: "map_of ?vs = map_of (rev edits)"
    using foldl_setProperty_lookup [OF assms, of "[]"] by (simp add: applyEdits_def)
  from alist_by_keys [OF d] show ?thesis
    by (simp add: k l latestValue_def)
qed

lemma setProperty_key_set: "fst ` set (setProperty vs k v) \<subseteq> insert k (fst ` set vs)"
proof -
  have "set (map fst (setProperty vs k v)) \<subseteq> insert k (set (map fst vs))"
    unfolding setProperty_keys by auto
  then show ?thesis by simp
qed

lemma applyEdits_keys: "fst ` set (applyEdits edits) \<subseteq> fst ` set edits"
proof -
  have "fst ` set (foldl (\<lambda>vs kv. setProperty vs (fst kv) (snd kv)) vs0 edits)
          \<subseteq> fst ` set vs0 \<union> fst ` set edits" for vs0
  proof (induction edits arbitrary: vs0)
    case Nil
    show ?case by simp
  next
    case (Cons e edits)
    from Cons [of "setProperty vs0 (fst e) (snd e)"] setProperty_key_set [of vs0 "fst e" "snd e"]
    show ?case by auto
  qed
  from this [of "[]"] show ?thesis by (simp add: applyEdits_def)
qed

section \<open>Effects settle, and sessions stay well formed\<close>

lemma settle_quiet: "\<not> clearPending s \<Longrightarrow> \<not> generatePending s \<Longrightarrow> settle s = s"
  by (simp add: settle.simps)

lemma flushEffects_clearPending [simp]: "\<not> clearPending (flushEffects s)"
  by (simp add: flushEffects_def clearPending_def Let_def)

lemma flushEffects_generatePending:
  "\<not> clearPending s \<Longrightarrow> \<not> generatePending (flushEffects s)"
  by (simp add: flushEffects_def generatePending_def Let_def)

lemma settle_generate:
  "\<not> clearPending s \<Longrightarrow> generatePending s \<Longrightarrow>
   settle s = s\<lparr>terraformCode := generateTerraformCode (selectedCategory s) (deref s),
                generatedFor := Some (arrayIdent s, selectedCategory s)\<rparr>"
  apply (subst settle.simps)
  apply (simp add: settle_quiet flushEffects_generatePending)
  apply (simp add: flushEffects_def Let_def clearPending_def)
  done

lemma settle_clear:
  "clearPending s \<Longrightarrow>
   settle s = s\<lparr>droppedResources := [], arrayIdent := Suc (arrayIdent s),
                terraformCode := generateTerraformCode (selectedCategory s) ([] :: placed_img list),
                clearedFor := Some (selectedCategory s),
                generatedFor := Some (Suc (arrayIdent s), selectedCategory s)\<rparr>"
  apply (subst settle.simps)
  apply simp
  apply (subst settle_generate)
    apply simp
   apply (simp add: flushEffects_def Let_def generatePending_def)
  apply (simp add: flushEffects_def Let_def deref_def)
  done

lemma settle_quiescent: "\<not> clearPending (settle s) \<and> \<not> generatePending (settle s)"
  by (induction s rule: settle.induct) (subst settle.simps, subst (2) settle.simps, simp)

lemma wf_addPlaced: "wf s \<Longrightarrow> wf (addPlaced r s)"
  by (auto simp: wf_def addPlaced_def less_Suc_eq)

lemma deref_addPlaced: "wf s \<Longrightarrow> deref (addPlaced r s) = deref s @ [place r]"
  by (auto simp: wf_def addPlaced_def deref_def)

lemma wf_assignValue: "wf s \<Longrightarrow> assignValue i k v s = Inr s' \<Longrightarrow> wf s'"
  by (auto simp: wf_def assignValue_def split: if_splits option.splits)

lemma deref_assignValue:
  assumes "wf s" "assignValue i k v s = Inr s'"
  shows "deref s' = (deref s)[i := (deref s ! i)\<lparr>res_values := setProperty (res_values (deref s ! i)) k v\<rparr>]"
  using assms
  by (auto simp: wf_def assignValue_def deref_def list_eq_iff_nth_eq nth_list_update nth_eq_iff_index_eq
      split: if_splits option.splits)

lemma assignValue_frame:
  assumes "wf s" "assignValue i k v s = Inr s'"
  shows "onlyEntryChanged i k (deref s) (deref s')"
proof -
  have i: "i < length (droppedResources s)"
    using assms(2) by (auto simp: assignValue_def split: if_splits)
  have d: "deref s' = (deref s)[i := (deref s ! i)\<lparr>res_values := setProperty (res_values (deref s ! i)) k v\<rparr>]"
    by (rule deref_assignValue [OF assms])
  have l: "length (deref s) = length (droppedResources s)"
    by (simp add: deref_def)
  show ?thesis
    using i by (simp add: onlyEntryChanged_def d l setProperty_others)
qed

lemma assignValue_fields:
  "assignValue i k v s = Inr s' \<Longrightarrow>
     droppedResources s' = droppedResources s \<and> selectedCategory s' = selectedCategory s
     \<and> fresh s' = fresh s \<and> terraformCode s' = terraformCode s"
  by (auto simp: assignValue_def split: if_splits option.splits)

lemma assignValue_entry:
  assumes "wf s" "assignValue i k v s = Inr s'"
  shows "res_values (deref s' ! i) = setProperty (res_values (deref s ! i)) k v"
proof -
  have i: "i < length (droppedResources s)"
    using assms(2) by (auto simp: assignValue_def split: if_splits)
  then show ?thesis
    by (simp add: deref_assignValue [OF assms]) (simp add: deref_def)
qed

lemma deref_cong:
  "store s' = store s \<Longrightarrow> droppedResources s' = droppedResources s \<Longrightarrow> deref s' = deref s"
  by (simp add: deref_def)

lemma wf_flushEffects: "wf s \<Longrightarrow> wf (flushEffects s)"
  by (simp add: wf_def flushEffects_def Let_def)

lemma wf_settle: "wf s \<Longrightarrow> wf (settle s)"
proof (induction s rule: settle.induct)
  case (1 s)
  show ?case
  proof (cases "clearPending s \<or> generatePending s")
    case True
    then have "settle s = settle (flushEffects s)" by (subst settle.simps) simp
    with 1 True show ?thesis by (simp add: wf_flushEffects)
  next
    case False
    then have "settle s = s" by (subst settle.simps) simp
    with 1 show ?thesis by simp
  qed
qed

lemma wf_dispatch: "wf s \<Longrightarrow> dispatch e s = Inr s' \<Longrightarrow> wf s'"
  by (cases e)
     (auto simp: dispatch_def handleDragEnd_def updateResourceValue_def wf_def addPlaced_def
        assignValue_def less_Suc_eq split: option.splits sum.splits if_splits)

lemma wf_step: "wf s \<Longrightarrow> wf (step e s)"
  by (auto simp: step_def wf_settle wf_dispatch split: sum.splits)

lemma wf_initial: "wf initial"
  by (simp add: wf_def initial_def)

lemma run_wf: "wf (run es)"
  unfolding run_def
  by (induction es rule: rev_induct) (simp_all add: mount_def wf_settle wf_initial wf_step)

lemma wf_dispatch_old: "wf s \<Longrightarrow> dispatch_old e s = Inr s' \<Longrightarrow> wf s'"
  by (cases e)
     (auto simp: dispatch_old_def handleDragEnd_old_def updateResourceValue_old_def wf_def
        addPlaced_def assignValue_def less_Suc_eq split: option.splits sum.splits if_splits)

lemma wf_step_old: "wf s \<Longrightarrow> wf (step_old e s)"
  by (auto simp: step_old_def wf_dispatch_old split: sum.splits)

lemma wf_initial_old: "wf initial_old"
  by (simp add: wf_def initial_old_def)

lemma run_old_wf: "wf (run_old es)"
  unfolding run_old_def
  by (induction es rule: rev_induct) (simp_all add: wf_step_old wf_initial_old)

lemma step_quiescent:
  "\<not> clearPending s \<and> \<not> generatePending s
     \<Longrightarrow> \<not> clearPending (step e s) \<and> \<not> generatePending (step e s)"
  by (auto simp: step_def settle_quiescent split: sum.splits)

lemma run_quiescent: "\<not> clearPending (run es) \<and> \<not> generatePending (run es)"
  unfolding run_def
proof (induction es rule: rev_induct)
  case Nil
  show ?case by (simp add: mount_def settle_quiescent)
next
  case (snoc e es)
  then show ?case by (simp add: step_quiescent)
qed

lemma onlyEntryChanged_refl: "onlyEntryChanged i key rs rs"
  by (simp add: onlyEntryChanged_def)

lemma assignValue_Inr: "assignValue i k v s = Inr s' \<Longrightarrow> \<exists>st. s' = s\<lparr>store := st\<rparr>"
  by (auto simp: assignValue_def split: if_splits option.splits)

lemma assignValue_Inl:
  "wf s \<Longrightarrow> assignValue i k v s = Inl e \<Longrightarrow> \<not> i < length (droppedResources s)"
proof
  assume w: "wf s" and a: "assignValue i k v s = Inl e" and i: "i < length (droppedResources s)"
  from i have "droppedResources s ! i \<in> set (droppedResources s)" by (rule nth_mem)
  with w have "store s (droppedResources s ! i) \<noteq> None" by (simp add: wf_def)
  with a i show False by (auto simp: assignValue_def)
qed

lemma step_InputChange:
  assumes "\<not> clearPending s"
  shows "step (InputChange i key v) s = s \<and> assignValue i key v s = Inl TypeError
         \<or> (\<exists>s'. assignValue i key v s = Inr s'
                 \<and> droppedResources (step (InputChange i key v) s) = droppedResources s'
                 \<and> store (step (InputChange i key v) s) = store s')"
proof (cases "assignValue i key v s")
  case (Inl e)
  then show ?thesis by (cases e) (simp add: step_def dispatch_def updateResourceValue_def)
next
  case (Inr s')
  from assignValue_Inr [OF Inr] obtain st where s': "s' = s\<lparr>store := st\<rparr>" ..
  from assms
  have c: "\<not> clearPending (s'\<lparr>arrayIdent := Suc (arrayIdent s')\<rparr>)"
    by (simp add: clearPending_def s')
  have "settle (s'\<lparr>arrayIdent := Suc (arrayIdent s')\<rparr>) =
          (if generatePending (s'\<lparr>arrayIdent := Suc (arrayIdent s')\<rparr>)
           then flushEffects (s'\<lparr>arrayIdent := Suc (arrayIdent s')\<rparr>)
           else s'\<lparr>arrayIdent := Suc (arrayIdent s')\<rparr>)"
    using c by (subst settle.simps) (simp add: settle_quiet flushEffects_generatePending)
  with c Inr show ?thesis
    by (simp add: step_def dispatch_def updateResourceValue_def flushEffects_def Let_def)
qed

section \<open>Evaluating concrete sessions\<close>

lemmas eval_defs =
  step_def dispatch_def handleDragEnd_def updateResourceValue_def assignValue_def addPlaced_def
  place_def resources_def mkResource_def flushEffects_def clearPending_def generatePending_def
  deref_def setProperty_def initial_def mount_def Let_def

lemmas eval_old_defs =
  step_old_def dispatch_old_def handleDragEnd_old_def updateResourceValue_old_def assignValue_def
  addPlaced_def place_def resources_old_def deref_def setProperty_def initial_old_def Let_def

lemmas render_defs =
  generateTerraformCode_blocks updateTerraformCode_blocks resourceBlock_def
  Object_entries_def isArrayIndex_def arrayIndex_def digitValue_def toLowerCase_def
  upperLetters_def lowerLetters_def


lemmas grammar_defs = preamble_def providerBlock_def blockOf_def blockHeader_def fieldLine_def
  blockEnd_def

lemma find_no_id: "a \<notin> set (map res_id defs) \<Longrightarrow> find (\<lambda>r. res_id r = a) defs = None"
  by (auto simp: find_None_iff)

lemma selectedCategory_two_drops: "selectedCategory (run two_drops) = ''AWS''"
  by (simp add: run_def two_drops_def eval_defs settle.simps)

lemma selectedCategory_two_drops_old: "selectedCategory (run_old two_drops) = ''AWS''"
  by (simp add: run_old_def two_drops_def eval_old_defs)

lemma deref_two_drops:
  "deref (run two_drops) =
     [place (mkResource ''aws_ec2'' ''AWS EC2'' [''ami'', ''instance_type'', ''tags'']
               ''/aws-ec2.png''),
      place aws_s3]"
  by (simp add: run_def two_drops_def eval_defs settle.simps aws_s3_def)

lemma deref_two_drops_old:
  "deref (run_old two_drops) =
     [place \<lparr>res_id = ''aws_ec2'', res_name = ''AWS EC2'',
               res_fields = [''ami'', ''instance_type'', ''tags'']\<rparr>,
      place \<lparr>res_id = ''aws_s3'', res_name = ''AWS S3'',
               res_fields = [''bucket_name'', ''region'']\<rparr>]"
  by (simp add: run_old_def two_drops_def eval_old_defs)

section \<open>The concrete scenario\<close>

text \<open>
  Claim C1. With category \<^verbatim>\<open>AWS\<close>, one \<^verbatim>\<open>aws_s3\<close> resource dropped and its values
  entered in the order \<^verbatim>\<open>bucket_name\<close>, \<^verbatim>\<open>region\<close>, the generated code is the fixed
  preamble naming the provider \<^verbatim>\<open>aws\<close> followed by the block
  \<^verbatim>\<open>resource "aws_s3" "aws_s3_resource" {...}\<close> with the two lines in that order. This
  holds for the component of either file; the current one has its provider line
  between the preamble and the block.
\<close>

theorem scenario_aws_s3:
  \<open>terraformCode (run [DragEnd ''aws_s3'', InputChange 0 ''bucket_name'' ''my-bucket'',
                         InputChange 0 ''region'' ''us-east-1''])
   = ''terraform {\<newline>  required_providers {\<newline>    aws = {\<newline>      source  = "hashicorp/aws"\<newline>      version = "~> 4.16"\<newline>    }\<newline>  }\<newline>  required_version = ">= 1.2.0"\<newline>}\<newline>\<newline>provider "aws" {}\<newline>\<newline>''
     @ ''resource "aws_s3" "aws_s3_resource" {\<newline>  bucket_name = "my-bucket"\<newline>  region = "us-east-1"\<newline>}\<newline>\<newline>''
   \<and> terraformCode (run_old [DragEnd ''aws_s3'', InputChange 0 ''bucket_name'' ''my-bucket'',
                             InputChange 0 ''region'' ''us-east-1''])
   = ''terraform {\<newline>  required_providers {\<newline>    aws = {\<newline>      source  = "hashicorp/aws"\<newline>      version = "~> 4.16"\<newline>    }\<newline>  }\<newline>  required_version = ">= 1.2.0"\<newline>}\<newline>\<newline>''
     @ ''resource "aws_s3" "aws_s3_resource" {\<newline>  bucket_name = "my-bucket"\<newline>  region = "us-east-1"\<newline>}\<newline>\<newline>''\<close>
proof -
  have a: "terraformCode (run [DragEnd ''aws_s3'', InputChange 0 ''bucket_name'' ''my-bucket'',
                           InputChange 0 ''region'' ''us-east-1''])
     = preamble ''aws'' @ providerBlock ''aws''
       @ blockOf ''aws_s3'' [(''bucket_name'', ''my-bucket''), (''region'', ''us-east-1'')]"
    by (simp add: run_def eval_defs settle.simps render_defs)
  have b: "terraformCode (run_old [DragEnd ''aws_s3'', InputChange 0 ''bucket_name'' ''my-bucket'',
                               InputChange 0 ''region'' ''us-east-1''])
     = preamble ''aws''
       @ blockOf ''aws_s3'' [(''bucket_name'', ''my-bucket''), (''region'', ''us-east-1'')]"
    by (simp add: run_old_def eval_old_defs render_defs)
  show ?thesis
    unfolding a b by (simp add: grammar_defs)
qed

section \<open>One block per placed resource\<close>

text \<open>
  Claim C2. For every category and every sequence of \<open>N\<close> placed resources, the document
  is the preamble followed by exactly \<open>N\<close> resource blocks, and the block at position
  \<open>i\<close> is the one of the resource at position \<open>i\<close>: its header line
  \<^verbatim>\<open>resource "<id>" "<id>_resource" {\<close>, its entry lines and the closing line.
\<close>

theorem resource_blocks_in_order:
  "generateTerraformCode c rs =
     preamble (toLowerCase c) @ providerBlock (toLowerCase c) @ concat (map resourceBlock rs)
   \<and> updateTerraformCode c rs = preamble (toLowerCase c) @ concat (map resourceBlock rs)
   \<and> length (map resourceBlock rs) = length rs
   \<and> (\<forall>i < length rs.
        map resourceBlock rs ! i =
          blockHeader (res_id (rs ! i))
          @ concat (map fieldLine (Object_entries (res_values (rs ! i)))) @ blockEnd)"
  by (simp add: generateTerraformCode_blocks updateTerraformCode_blocks resourceBlock_def
      blockOf_def)

theorem resource_blocks_in_order_witness:
  \<open>(1 :: nat) < length [place aws_s3, s3_region_first]
   \<and> length (map resourceBlock [place aws_s3, s3_region_first]) = 2
   \<and> map resourceBlock [place aws_s3, s3_region_first] ! 1
     = ''resource "aws_s3" "aws_s3_resource" {\<newline>  region = "us-east-1"\<newline>  bucket_name = "my-bucket"\<newline>}\<newline>\<newline>''
   \<and> generateTerraformCode ''AWS'' [place aws_s3, s3_region_first]
     = preamble ''aws'' @ providerBlock ''aws''
       @ concat (map resourceBlock [place aws_s3, s3_region_first])\<close>
proof -
  note t = resource_blocks_in_order [of "''AWS''" "[place aws_s3, s3_region_first]"]
  have l: "(1 :: nat) < length [place aws_s3, s3_region_first]"
    by simp
  from t have g: "generateTerraformCode ''AWS'' [place aws_s3, s3_region_first]
     = preamble ''aws'' @ providerBlock ''aws''
       @ concat (map resourceBlock [place aws_s3, s3_region_first])"
    by (simp only: toLowerCase_AWS)
  from t have n: "length (map resourceBlock [place aws_s3, s3_region_first]) = 2"
    by simp
  from t l have "map resourceBlock [place aws_s3, s3_region_first] ! 1
      = blockHeader (res_id ([place aws_s3, s3_region_first] ! 1))
        @ concat (map fieldLine
            (Object_entries (res_values ([place aws_s3, s3_region_first] ! 1))))
        @ blockEnd"
    by blast
  then have i: \<open>map resourceBlock [place aws_s3, s3_region_first] ! 1
     = ''resource "aws_s3" "aws_s3_resource" {\<newline>  region = "us-east-1"\<newline>  bucket_name = "my-bucket"\<newline>}\<newline>\<newline>''\<close>
    by (simp add: s3_region_first_def place_def aws_s3_def mkResource_def
        Object_entries_def isArrayIndex_def arrayIndex_def digitValue_def grammar_defs)
  from l n i g show ?thesis by (intro conjI)
qed

section \<open>The empty sequence\<close>

text \<open>
  The older component never renders an empty sequence: \<^verbatim>\<open>updateTerraformCode\<close> is
  called by \<^verbatim>\<open>handleDragEnd\<close> with the array extended by the new resource and by
  \<^verbatim>\<open>updateResourceValue\<close> after an assignment at an existing index, and resources are
  never removed. As long as nothing has been dropped its code is the empty string of
  \<^verbatim>\<open>useState\<close>, unless the user has typed into the editor.
\<close>

lemma step_old_length:
  "length (droppedResources s) \<le> length (droppedResources (step_old e s))"
  by (cases e)
     (auto simp: step_old_def dispatch_old_def handleDragEnd_old_def updateResourceValue_old_def
        assignValue_def addPlaced_def split: option.splits sum.splits if_splits)

lemma step_old_no_resources:
  assumes "droppedResources (step_old e s) = []" "\<forall>code. e \<noteq> EditorChange code"
  shows "terraformCode (step_old e s) = terraformCode s"
  using assms
  by (cases e)
     (auto simp: step_old_def dispatch_old_def handleDragEnd_old_def updateResourceValue_old_def
        assignValue_def addPlaced_def split: option.splits sum.splits if_splits)

lemma run_old_no_resources_no_document:
  "\<forall>code. EditorChange code \<notin> set es \<Longrightarrow> droppedResources (run_old es) = []
     \<Longrightarrow> terraformCode (run_old es) = []"
proof (induction es rule: rev_induct)
  case Nil
  show ?case by (simp add: run_old_def initial_old_def)
next
  case (snoc e es)
  have r: "run_old (es @ [e]) = step_old e (run_old es)"
    by (simp add: run_old_def)
  from snoc.prems(2) step_old_length [of "run_old es" e]
  have "droppedResources (run_old es) = []"
    by (simp add: r)
  with snoc have "terraformCode (run_old es) = []"
    by simp
  moreover from snoc.prems
  have "terraformCode (step_old e (run_old es)) = terraformCode (run_old es)"
    by (intro step_old_no_resources) (auto simp: r)
  ultimately show ?case by (simp add: r)
qed


section \<open>Field order\<close>

text \<open>
  Claim C4. The lines of a resource block follow the insertion order of the value
  object, that is the order in which the fields were first edited, each with the value
  written last; the catalog's declared order plays no part. The field names are those
  of the catalog, as in every value object the component builds.
\<close>

theorem fields_in_first_edit_order:
  assumes "set (map fst edits) \<subseteq> set catalogFields"
  shows "Object_entries (applyEdits edits)
           = map (\<lambda>k. (k, latestValue edits k)) (firstEdited (map fst edits))
         \<and> appendResource code (res\<lparr>res_values := applyEdits edits\<rparr>)
           = code @ blockHeader (res_id res)
             @ concat (map (\<lambda>k. fieldLine (k, latestValue edits k)) (firstEdited (map fst edits)))
             @ blockEnd"
proof -
  from assms have p: "''__proto__'' \<notin> fst ` set edits"
    using catalogFields_plain by fastforce
  have "\<forall>kv \<in> set (applyEdits edits). arrayIndex (fst kv) = None"
    using applyEdits_keys [of edits] assms catalogFields_plain by fastforce
  then have e: "Object_entries (applyEdits edits) = applyEdits edits"
    by (rule Object_entries_plain)
  have f: "applyEdits edits
             = map (\<lambda>k. (k, latestValue edits k)) (firstEdited (map fst edits))"
    by (rule applyEdits_first_edit_order [OF p])
  have "Object_entries (applyEdits edits)
          = map (\<lambda>k. (k, latestValue edits k)) (firstEdited (map fst edits))"
    using e f by simp
  then show ?thesis
    by (simp add: appendResource_block resourceBlock_def blockOf_def comp_def)
qed

text \<open>
  The resource \<^verbatim>\<open>aws_s3\<close> declares \<^verbatim>\<open>bucket_name\<close> before \<^verbatim>\<open>region\<close>; edited in the order
  \<^verbatim>\<open>region\<close>, \<^verbatim>\<open>bucket_name\<close>, its block lists \<^verbatim>\<open>region\<close> first, in both components.
\<close>

theorem fields_in_first_edit_order_witness:
  \<open>set (map fst [(''region'', ''us-east-1''), (''bucket_name'', ''my-bucket'')]) \<subseteq> set catalogFields
   \<and> res_fields (place aws_s3) = [''bucket_name'', ''region'']
   \<and> appendResource []
        ((place aws_s3)\<lparr>res_values :=
            applyEdits [(''region'', ''us-east-1''), (''bucket_name'', ''my-bucket'')]\<rparr>)
      = ''resource "aws_s3" "aws_s3_resource" {\<newline>  region = "us-east-1"\<newline>  bucket_name = "my-bucket"\<newline>}\<newline>\<newline>''
   \<and> terraformCode (run [DragEnd ''aws_s3'', InputChange 0 ''region'' ''us-east-1'',
                           InputChange 0 ''bucket_name'' ''my-bucket''])
      = preamble ''aws'' @ providerBlock ''aws''
        @ blockOf ''aws_s3'' [(''region'', ''us-east-1''), (''bucket_name'', ''my-bucket'')]
   \<and> terraformCode (run_old [DragEnd ''aws_s3'', InputChange 0 ''region'' ''us-east-1'',
                               InputChange 0 ''bucket_name'' ''my-bucket''])
      = preamble ''aws''
        @ blockOf ''aws_s3'' [(''region'', ''us-east-1''), (''bucket_name'', ''my-bucket'')]\<close>
proof -
  have h: "set (map fst [(''region'', ''us-east-1''), (''bucket_name'', ''my-bucket'')])
             \<subseteq> set catalogFields"
    by (simp add: catalogFields_def resources_def mkResource_def)
  have a: "terraformCode (run [DragEnd ''aws_s3'', InputChange 0 ''region'' ''us-east-1'',
                           InputChange 0 ''bucket_name'' ''my-bucket''])
      = preamble ''aws'' @ providerBlock ''aws''
        @ blockOf ''aws_s3'' [(''region'', ''us-east-1''), (''bucket_name'', ''my-bucket'')]"
    by (simp add: run_def eval_defs settle.simps render_defs)
  have b: "terraformCode (run_old [DragEnd ''aws_s3'', InputChange 0 ''region'' ''us-east-1'',
                               InputChange 0 ''bucket_name'' ''my-bucket''])
      = preamble ''aws''
        @ blockOf ''aws_s3'' [(''region'', ''us-east-1''), (''bucket_name'', ''my-bucket'')]"
    by (simp add: run_old_def eval_old_defs render_defs)
  have c: \<open>appendResource []
        ((place aws_s3)\<lparr>res_values :=
            applyEdits [(''region'', ''us-east-1''), (''bucket_name'', ''my-bucket'')]\<rparr>)
      = ''resource "aws_s3" "aws_s3_resource" {\<newline>  region = "us-east-1"\<newline>  bucket_name = "my-bucket"\<newline>}\<newline>\<newline>''\<close>
    using fields_in_first_edit_order [OF h, of "[]" "place aws_s3"]
    by (simp add: firstEdited_def latestValue_def place_def aws_s3_def mkResource_def
        grammar_defs)
  have d: "res_fields (place aws_s3) = [''bucket_name'', ''region'']"
    by (simp add: place_def aws_s3_def mkResource_def)
  from h a b c d show ?thesis by (intro conjI)
qed

section \<open>Changing the category\<close>

text \<open>
  In \<^verbatim>\<open>Terraform.tsx\<close> a change of category runs the clearing effect and, in the same
  pass, the generating effect, which still reads the array of the render it belongs
  to; the next pass generates again from the empty array. Once the effects have
  settled the resources are gone and the code is the preamble and provider block of
  the new category.
\<close>

lemma category_change_clears:
  assumes "c \<noteq> selectedCategory (run es)"
  shows "droppedResources (step (CategoryChange c) (run es)) = []
         \<and> selectedCategory (step (CategoryChange c) (run es)) = c
         \<and> terraformCode (step (CategoryChange c) (run es))
             = preamble (toLowerCase c) @ providerBlock (toLowerCase c)"
proof -
  from run_quiescent [of es] assms
  have "clearPending ((run es)\<lparr>selectedCategory := c\<rparr>)"
    by (auto simp: clearPending_def)
  then show ?thesis
    by (simp add: step_def dispatch_def settle_clear generateTerraformCode_blocks)
qed

lemma category_change_first_pass:
  assumes "c \<noteq> selectedCategory (run es)"
  shows "terraformCode (flushEffects ((run es)\<lparr>selectedCategory := c\<rparr>))
           = generateTerraformCode c (deref (run es))
         \<and> droppedResources (flushEffects ((run es)\<lparr>selectedCategory := c\<rparr>)) = []"
proof -
  from run_quiescent [of es] assms
  have "clearPending ((run es)\<lparr>selectedCategory := c\<rparr>)"
    "generatePending ((run es)\<lparr>selectedCategory := c\<rparr>)"
    by (auto simp: clearPending_def generatePending_def)
  then show ?thesis
    by (simp add: flushEffects_def Let_def deref_def)
qed

text \<open>
  Claim C5. Changing the active category clears all placed resources: after a resource
  has been added and the category changed, the next document shows no resource block.
  The older file has no clearing effect and its category handler does not render:
  after \<^verbatim>\<open>aws_s3\<close> has been dropped and the category changed to \<^verbatim>\<open>Docker\<close>, the array
  still holds the resource, the code still shows its block under the provider
  \<^verbatim>\<open>aws\<close>, and the next drop renders the \<^verbatim>\<open>aws_s3\<close> block under the provider \<^verbatim>\<open>docker\<close>.
\<close>

theorem category_change_old_keeps_resources:
  "droppedResources (run_old [DragEnd ''aws_s3'', CategoryChange ''Docker'']) = [0]
   \<and> map res_id (deref (run_old [DragEnd ''aws_s3'', CategoryChange ''Docker''])) = [''aws_s3'']
   \<and> selectedCategory (run_old [DragEnd ''aws_s3'', CategoryChange ''Docker'']) = ''Docker''
   \<and> terraformCode (run_old [DragEnd ''aws_s3'', CategoryChange ''Docker''])
     = preamble ''aws'' @ blockOf ''aws_s3'' []
   \<and> terraformCode
       (run_old [DragEnd ''aws_s3'', CategoryChange ''Docker'', DragEnd ''docker_network''])
     = preamble ''docker'' @ blockOf ''aws_s3'' [] @ blockOf ''docker_network'' []"
  by (simp add: run_old_def eval_old_defs render_defs)

section \<open>Determinism\<close>

lemma settle_idem: "settle (settle s) = settle s"
  using settle_quiescent [of s] by (simp add: settle_quiet)

text \<open>
  Claim C6. The renderer is deterministic: equal categories and equal resource
  sequences give equal documents. In the component the generated code depends on the
  category and the resources alone, not on the code shown before, on addresses or on
  objects no longer in the array; and rendering a settled session again changes
  nothing.
\<close>

theorem renderer_deterministic:
  "(c = c' \<and> rs = rs' \<longrightarrow>
      generateTerraformCode c rs = generateTerraformCode c' rs'
      \<and> updateTerraformCode c rs = updateTerraformCode c' rs')
   \<and> (selectedCategory s = selectedCategory s' \<and> deref s = deref s'
        \<and> \<not> clearPending s \<and> \<not> clearPending s' \<and> generatePending s \<and> generatePending s' \<longrightarrow>
        terraformCode (settle s) = terraformCode (settle s'))
   \<and> settle (settle s) = settle s"
  by (simp add: settle_generate settle_idem)

theorem renderer_deterministic_witness:
  "generateTerraformCode ''AWS'' [s3_region_first] = generateTerraformCode ''AWS'' [s3_region_first]
   \<and> updateTerraformCode ''AWS'' [s3_region_first] = updateTerraformCode ''AWS'' [s3_region_first]
   \<and> terraformCode (settle (initial\<lparr>clearedFor := Some ''AWS''\<rparr>))
     = terraformCode (settle (initial\<lparr>clearedFor := Some ''AWS'', terraformCode := ''stale'',
                                      fresh := 7\<rparr>))
   \<and> settle (settle initial) = settle initial"
  using renderer_deterministic [of "''AWS''" "''AWS''" "[s3_region_first]" "[s3_region_first]"
      "initial\<lparr>clearedFor := Some ''AWS''\<rparr>"
      "initial\<lparr>clearedFor := Some ''AWS'', terraformCode := ''stale'', fresh := 7\<rparr>"]
    renderer_deterministic [of "''AWS''" "''AWS''" "[s3_region_first]" "[s3_region_first]"
      initial initial]
  by (simp add: initial_def clearPending_def generatePending_def deref_def)

section \<open>No failure, no escaping\<close>

text \<open>
  Claim C7. For every category (the empty one included), every resource sequence and all
  field values the renderer returns a document; no case of it fails. Each entry of a
  value object gives exactly one line and a field without entry gives none; keys and
  values are copied as they are, a quotation mark or a line break in a value included.
\<close>

theorem renderer_total_verbatim:
  \<open>generateTerraformCode c (rs :: 'a placed_scheme list) =
     template (toLowerCase c)
     @ concat (map (\<lambda>res. ''resource "'' @ res_id res @ ''" "'' @ res_id res @ ''_resource" {\<newline>''
                     @ concat (map (\<lambda>kv. ''  '' @ fst kv @ '' = "'' @ snd kv @ ''"\<newline>'')
                                 (Object_entries (res_values res)))
                     @ ''}\<newline>\<newline>'') rs)
   \<and> updateTerraformCode c rs =
     template_old (toLowerCase c)
     @ concat (map (\<lambda>res. ''resource "'' @ res_id res @ ''" "'' @ res_id res @ ''_resource" {\<newline>''
                     @ concat (map (\<lambda>kv. ''  '' @ fst kv @ '' = "'' @ snd kv @ ''"\<newline>'')
                                 (Object_entries (res_values res)))
                     @ ''}\<newline>\<newline>'') rs)
   \<and> mset (Object_entries vs) = mset vs
   \<and> appendResource code (place aws_s3)
       = code @ ''resource "aws_s3" "aws_s3_resource" {\<newline>}\<newline>\<newline>''
   \<and> appendResource code ((place aws_s3)\<lparr>res_values := [(''region'', ''a"\<newline>b'')]\<rparr>)
       = code @ ''resource "aws_s3" "aws_s3_resource" {\<newline>  region = "a"\<newline>b"\<newline>}\<newline>\<newline>''\<close>
proof -
  have fl: \<open>fieldLine = (\<lambda>kv. ''  '' @ fst kv @ '' = "'' @ snd kv @ ''"\<newline>'')\<close>
    by (rule ext) (simp add: fieldLine_def)
  have b: \<open>(resourceBlock :: 'a placed_scheme \<Rightarrow> string) =
      (\<lambda>res. ''resource "'' @ res_id res @ ''" "'' @ res_id res @ ''_resource" {\<newline>''
         @ concat (map (\<lambda>kv. ''  '' @ fst kv @ '' = "'' @ snd kv @ ''"\<newline>'')
                     (Object_entries (res_values res)))
         @ ''}\<newline>\<newline>'')\<close>
    by (rule ext) (simp add: resourceBlock_def blockOf_def blockHeader_def blockEnd_def fl)
  have 1: "generateTerraformCode c rs = template (toLowerCase c) @ concat (map resourceBlock rs)"
    by (simp add: generateTerraformCode_def foldl_appendResource)
  have 2: "updateTerraformCode c rs = template_old (toLowerCase c) @ concat (map resourceBlock rs)"
    by (simp add: updateTerraformCode_def foldl_appendResource)
  have 3: \<open>appendResource code (place aws_s3)
       = code @ ''resource "aws_s3" "aws_s3_resource" {\<newline>}\<newline>\<newline>''\<close>
    by (simp add: appendResource_block resourceBlock_def grammar_defs place_def aws_s3_def
        mkResource_def Object_entries_def)
  have 4: \<open>appendResource code ((place aws_s3)\<lparr>res_values := [(''region'', ''a"\<newline>b'')]\<rparr>)
       = code @ ''resource "aws_s3" "aws_s3_resource" {\<newline>  region = "a"\<newline>b"\<newline>}\<newline>\<newline>''\<close>
    by (simp add: appendResource_block resourceBlock_def grammar_defs place_def aws_s3_def
        mkResource_def Object_entries_def isArrayIndex_def arrayIndex_def digitValue_def)
  show ?thesis
    unfolding 1 2 b using 3 4 by (simp add: mset_Object_entries)
qed

section \<open>The two renderers compared\<close>

text \<open>
  Claim C8, as amended. The two renderers differ by the provider-instantiation block
  and by nothing else: the document of \<^verbatim>\<open>generateTerraformCode\<close> is the one of
  \<^verbatim>\<open>updateTerraformCode\<close> with the block \<^verbatim>\<open>provider "<category>" {}\<close> inserted after the
  preamble, so the two always differ; both list the fields of a resource in the order
  of \<^verbatim>\<open>Object.entries\<close> of its value object, the edit order.
\<close>

theorem variants_differ_by_provider_block:
  "generateTerraformCode c rs =
     preamble (toLowerCase c) @ providerBlock (toLowerCase c)
     @ drop (length (preamble (toLowerCase c))) (updateTerraformCode c rs)
   \<and> take (length (preamble (toLowerCase c))) (updateTerraformCode c rs) = preamble (toLowerCase c)
   \<and> drop (length (preamble (toLowerCase c))) (updateTerraformCode c rs)
       = concat (map resourceBlock rs)
   \<and> generateTerraformCode c rs \<noteq> updateTerraformCode c rs"
proof -
  have "length (generateTerraformCode c rs) \<noteq> length (updateTerraformCode c rs)"
    by (simp add: generateTerraformCode_blocks updateTerraformCode_blocks providerBlock_def)
  then have "generateTerraformCode c rs \<noteq> updateTerraformCode c rs"
    by auto
  then show ?thesis
    by (simp add: generateTerraformCode_blocks updateTerraformCode_blocks)
qed

text \<open>
  As stated, one of the two would list the fields in catalog order. For \<^verbatim>\<open>aws_s3\<close>
  with \<^verbatim>\<open>region\<close> entered before \<^verbatim>\<open>bucket_name\<close> both list \<^verbatim>\<open>region\<close> first, and
  neither document is the one with the block in catalog order.
\<close>

theorem variants_field_order_counterexample:
  "terraformCode (run region_first)
     = preamble ''aws'' @ providerBlock ''aws''
       @ blockOf ''aws_s3'' [(''region'', ''us-east-1''), (''bucket_name'', ''my-bucket'')]
   \<and> terraformCode (run_old region_first)
     = preamble ''aws''
       @ blockOf ''aws_s3'' [(''region'', ''us-east-1''), (''bucket_name'', ''my-bucket'')]
   \<and> map catalogOrderBlock (deref (run region_first))
     = [blockOf ''aws_s3'' [(''bucket_name'', ''my-bucket''), (''region'', ''us-east-1'')]]
   \<and> map catalogOrderBlock (deref (run_old region_first))
     = [blockOf ''aws_s3'' [(''bucket_name'', ''my-bucket''), (''region'', ''us-east-1'')]]
   \<and> terraformCode (run region_first)
     \<noteq> preamble ''aws'' @ providerBlock ''aws''
       @ concat (map catalogOrderBlock (deref (run region_first)))
   \<and> terraformCode (run_old region_first)
     \<noteq> preamble ''aws'' @ concat (map catalogOrderBlock (deref (run_old region_first)))"
proof -
  have a: "terraformCode (run region_first)
     = preamble ''aws'' @ providerBlock ''aws''
       @ blockOf ''aws_s3'' [(''region'', ''us-east-1''), (''bucket_name'', ''my-bucket'')]"
    by (simp add: region_first_def run_def eval_defs settle.simps render_defs)
  have b: "terraformCode (run_old region_first)
     = preamble ''aws''
       @ blockOf ''aws_s3'' [(''region'', ''us-east-1''), (''bucket_name'', ''my-bucket'')]"
    by (simp add: region_first_def run_old_def eval_old_defs render_defs)
  have c: "map catalogOrderBlock (deref (run region_first))
     = [blockOf ''aws_s3'' [(''bucket_name'', ''my-bucket''), (''region'', ''us-east-1'')]]"
    by (simp add: region_first_def run_def eval_defs settle.simps catalogOrderBlock_def
        catalogOrderEntries_def)
  have d: "map catalogOrderBlock (deref (run_old region_first))
     = [blockOf ''aws_s3'' [(''bucket_name'', ''my-bucket''), (''region'', ''us-east-1'')]]"
    by (simp add: region_first_def run_old_def eval_old_defs catalogOrderBlock_def
        catalogOrderEntries_def)
  have e: "blockOf ''aws_s3'' [(''region'', ''us-east-1''), (''bucket_name'', ''my-bucket'')]
      \<noteq> blockOf ''aws_s3'' [(''bucket_name'', ''my-bucket''), (''region'', ''us-east-1'')]"
    by (simp add: blockOf_def fieldLine_def)
  show ?thesis
    unfolding a b c d using e by simp
qed

section \<open>Dropping an unknown identifier\<close>

text \<open>
  Claim C9. When the dragged identifier matches no definition of the active category,
  the session is left as it was: nothing is appended and no object is created. The
  handler returns without calling a setter when the category has a catalog entry, and
  throws before calling one when it has none.
\<close>

theorem unknown_identifier_no_change:
  "(a \<notin> set (catalogIds (selectedCategory (run es))) \<longrightarrow>
      step (DragEnd a) (run es) = run es
      \<and> handleDragEnd a (run es)
          = (if map_of resources (selectedCategory (run es)) = None then Inl TypeError
             else Inr (run es)))
   \<and> (a \<notin> set (catalogIds_old (selectedCategory (run_old es'))) \<longrightarrow>
      step_old (DragEnd a) (run_old es') = run_old es'
      \<and> handleDragEnd_old a (run_old es')
          = (if map_of resources_old (selectedCategory (run_old es')) = None then Inl TypeError
             else Inr (run_old es')))"
proof (intro conjI impI)
  assume h: "a \<notin> set (catalogIds (selectedCategory (run es)))"
  have q: "settle (run es) = run es"
    using run_quiescent [of es] by (simp add: settle_quiet)
  from h show "step (DragEnd a) (run es) = run es"
    by (auto simp: step_def dispatch_def handleDragEnd_def catalogIds_def find_no_id q
        split: option.splits)
  from h show "handleDragEnd a (run es)
      = (if map_of resources (selectedCategory (run es)) = None then Inl TypeError
         else Inr (run es))"
    by (auto simp: handleDragEnd_def catalogIds_def find_no_id split: option.splits)
next
  assume h: "a \<notin> set (catalogIds_old (selectedCategory (run_old es')))"
  then show "step_old (DragEnd a) (run_old es') = run_old es'"
    by (auto simp: step_old_def dispatch_old_def handleDragEnd_old_def catalogIds_old_def
        find_no_id split: option.splits)
  from h show "handleDragEnd_old a (run_old es')
      = (if map_of resources_old (selectedCategory (run_old es')) = None then Inl TypeError
         else Inr (run_old es'))"
    by (auto simp: handleDragEnd_old_def catalogIds_old_def find_no_id split: option.splits)
qed

theorem unknown_identifier_no_change_witness:
  "''docker_network'' \<notin> set (catalogIds (selectedCategory (run two_drops)))
   \<and> step (DragEnd ''docker_network'') (run two_drops) = run two_drops
   \<and> handleDragEnd ''docker_network'' (run two_drops) = Inr (run two_drops)
   \<and> ''docker_network'' \<notin> set (catalogIds_old (selectedCategory (run_old two_drops)))
   \<and> step_old (DragEnd ''docker_network'') (run_old two_drops) = run_old two_drops
   \<and> handleDragEnd_old ''docker_network'' (run_old two_drops) = Inr (run_old two_drops)"
proof -
  have 1: "''docker_network'' \<notin> set (catalogIds (selectedCategory (run two_drops)))"
    by (simp add: selectedCategory_two_drops catalogIds_def resources_def mkResource_def)
  have 2: "''docker_network'' \<notin> set (catalogIds_old (selectedCategory (run_old two_drops)))"
    by (simp add: selectedCategory_two_drops_old catalogIds_old_def resources_old_def)
  have 3: "map_of resources (selectedCategory (run two_drops)) \<noteq> None"
    by (simp add: selectedCategory_two_drops resources_def)
  have 4: "map_of resources_old (selectedCategory (run_old two_drops)) \<noteq> None"
    by (simp add: selectedCategory_two_drops_old resources_old_def)
  show ?thesis
    using unknown_identifier_no_change [of "''docker_network''" two_drops two_drops] 1 2 3 4
    by simp
qed

section \<open>The frame of a field edit\<close>

text \<open>
  Claim C10. Setting the value of a field of the resource at an index changes only that
  entry of that resource's value object: the array of references, its length and
  order, every other resource, every other entry of the same object in content and
  order, and the identifier, name, field list and image of the resource stay as they
  were; the entry itself becomes what the assignment \<^verbatim>\<open>values[key] = value\<close> makes it.
\<close>

theorem updateResourceValue_frame:
  "droppedResources (step (InputChange i key v) (run es)) = droppedResources (run es)
   \<and> onlyEntryChanged i key (deref (run es)) (deref (step (InputChange i key v) (run es)))
   \<and> (i < length (deref (run es)) \<longrightarrow>
        res_values (deref (step (InputChange i key v) (run es)) ! i)
          = setProperty (res_values (deref (run es) ! i)) key v)
   \<and> droppedResources (step_old (InputChange i key v) (run_old es'))
       = droppedResources (run_old es')
   \<and> onlyEntryChanged i key (deref (run_old es'))
       (deref (step_old (InputChange i key v) (run_old es')))
   \<and> (i < length (deref (run_old es')) \<longrightarrow>
        res_values (deref (step_old (InputChange i key v) (run_old es')) ! i)
          = setProperty (res_values (deref (run_old es') ! i)) key v)"
proof -
  let ?s = "run es" and ?n = "step (InputChange i key v) (run es)"
  note w = run_wf [of es]
  from run_quiescent [of es] have "\<not> clearPending ?s" by simp
  from step_InputChange [OF this, of i key v]
  consider "?n = ?s" "assignValue i key v ?s = Inl TypeError"
    | s' where "assignValue i key v ?s = Inr s'" "droppedResources ?n = droppedResources s'"
        "store ?n = store s'"
    by blast
  then have a: "droppedResources ?n = droppedResources ?s
      \<and> onlyEntryChanged i key (deref ?s) (deref ?n)
      \<and> (i < length (deref ?s) \<longrightarrow>
           res_values (deref ?n ! i) = setProperty (res_values (deref ?s ! i)) key v)"
  proof cases
    case 1
    from assignValue_Inl [OF w 1(2)] have "\<not> i < length (deref ?s)"
      by (simp add: deref_def)
    with 1 show ?thesis by (simp add: onlyEntryChanged_refl)
  next
    case 2
    have d: "deref ?n = deref s'" by (rule deref_cong [OF 2(3) 2(2)])
    show ?thesis
      using assignValue_frame [OF w 2(1)] assignValue_entry [OF w 2(1)]
        assignValue_fields [OF 2(1)] 2(2)
      by (simp add: d)
  qed
  let ?t = "run_old es'" and ?m = "step_old (InputChange i key v) (run_old es')"
  note w' = run_old_wf [of es']
  have b: "droppedResources ?m = droppedResources ?t
      \<and> onlyEntryChanged i key (deref ?t) (deref ?m)
      \<and> (i < length (deref ?t) \<longrightarrow>
           res_values (deref ?m ! i) = setProperty (res_values (deref ?t ! i)) key v)"
  proof (cases "assignValue i key v ?t")
    case (Inl e)
    from assignValue_Inl [OF w' Inl] have "\<not> i < length (deref ?t)"
      by (simp add: deref_def)
    with Inl show ?thesis
      by (simp add: step_old_def dispatch_old_def updateResourceValue_old_def
          onlyEntryChanged_refl)
  next
    case (Inr t')
    have n: "?m = t'\<lparr>terraformCode := updateTerraformCode (selectedCategory t') (deref t')\<rparr>"
      using Inr by (simp add: step_old_def dispatch_old_def updateResourceValue_old_def)
    have d: "deref ?m = deref t'" unfolding n by (simp add: deref_def)
    show ?thesis
      using assignValue_frame [OF w' Inr] assignValue_entry [OF w' Inr]
        assignValue_fields [OF Inr]
      by (simp add: d) (simp add: n)
  qed
  from a b show ?thesis by simp
qed

theorem updateResourceValue_frame_witness:
  "(1 :: nat) < length (deref (run two_drops)) \<and> (1 :: nat) < length (deref (run_old two_drops))
   \<and> droppedResources (step (InputChange 1 ''region'' ''eu-west-1'') (run two_drops))
       = droppedResources (run two_drops)
   \<and> onlyEntryChanged 1 ''region'' (deref (run two_drops))
       (deref (step (InputChange 1 ''region'' ''eu-west-1'') (run two_drops)))
   \<and> res_values (deref (step (InputChange 1 ''region'' ''eu-west-1'') (run two_drops)) ! 1)
       = [(''region'', ''eu-west-1'')]
   \<and> droppedResources (step_old (InputChange 1 ''region'' ''eu-west-1'') (run_old two_drops))
       = droppedResources (run_old two_drops)
   \<and> onlyEntryChanged 1 ''region'' (deref (run_old two_drops))
       (deref (step_old (InputChange 1 ''region'' ''eu-west-1'') (run_old two_drops)))
   \<and> res_values
        (deref (step_old (InputChange 1 ''region'' ''eu-west-1'') (run_old two_drops)) ! 1)
       = [(''region'', ''eu-west-1'')]"
  using updateResourceValue_frame [of 1 "''region''" "''eu-west-1''" two_drops two_drops]
  by (simp add: deref_two_drops deref_two_drops_old place_def setProperty_def)

end
